theory Spec2Isabelle
  imports Main
begin

section \<open>The chat endpoint: src/app/api/chat/route.ts\<close>

text \<open>
  The endpoint is one function, \<open>POST\<close>. It reads the request body, validates the
  \<open>messages\<close> field, composes one prompt string, hands it to the agent runtime and
  translates the runtime's events into a server-sent event stream, reporting to the
  telemetry sink on the way. The model threads one state through the function: the two
  counters of the closure, the queue of the stream controller, the telemetry sink and the
  number of clock readings taken so far.
\<close>

subsection \<open>Strings of the runtime: \<open>join\<close> and \<open>JSON.stringify\<close>\<close>

text \<open>
  Strings are HOL strings: a character is a byte, which covers ASCII text, and the
  length of a string is the number of its characters. \<open>Array.prototype.join\<close> and
  \<open>JSON.stringify\<close> are built-ins of the language; they are written out here for the
  values the endpoint gives them: arrays of strings, and flat objects whose values are
  strings or numbers. A number is carried by the text \<open>JSON.stringify\<close> prints for it.
\<close>

fun join :: "string \<Rightarrow> string list \<Rightarrow> string" where
  "join sep [] = []"
| "join sep [x] = x"
| "join sep (x # y # ys) = x @ sep @ join sep (y # ys)"

definition hex_digit :: "nat \<Rightarrow> char" where
  "hex_digit n = ''0123456789abcdef'' ! (n mod 16)"

definition quote_char :: "char \<Rightarrow> string" where
  "quote_char c =
     (if c = CHR 0x08 then [CHR 0x5C, CHR ''b'']
      else if c = CHR 0x09 then [CHR 0x5C, CHR ''t'']
      else if c = CHR 0x0A then [CHR 0x5C, CHR ''n'']
      else if c = CHR 0x0C then [CHR 0x5C, CHR ''f'']
      else if c = CHR 0x0D then [CHR 0x5C, CHR ''r'']
      else if c = CHR 0x22 then [CHR 0x5C, CHR 0x22]
      else if c = CHR 0x5C then [CHR 0x5C, CHR 0x5C]
      else if (of_char c :: nat) < 32
        then [CHR 0x5C, CHR ''u'', CHR ''0'', CHR ''0'',
              hex_digit (of_char c div 16), hex_digit (of_char c)]
      else [c])"

definition quote_JSON_string :: "string \<Rightarrow> string" where
  "quote_JSON_string s = [CHR 0x22] @ concat (map quote_char s) @ [CHR 0x22]"

datatype json_value = JString string | JNumber string

fun stringify_value :: "json_value \<Rightarrow> string" where
  "stringify_value (JString s) = quote_JSON_string s"
| "stringify_value (JNumber n) = n"

definition stringify_property :: "string \<times> json_value \<Rightarrow> string" where
  "stringify_property p = quote_JSON_string (fst p) @ '':'' @ stringify_value (snd p)"

definition JSON_stringify :: "(string \<times> json_value) list \<Rightarrow> string" where
  "JSON_stringify properties = ''{'' @ join '','' (map stringify_property properties) @ ''}''"

subsection \<open>The request\<close>

text \<open>\<open>interface MessageInput { role: 'user' | 'assistant'; content: string }\<close>. The role
  is kept as the string the code compares.\<close>

record MessageInput =
  role :: string
  content :: string

text \<open>Values handed to the telemetry sink as attributes.\<close>

datatype attr = A_string string | A_number int | A_undefined

text \<open>
  What \<open>messages\<close> is bound to after line 29. Only an array has elements the code reads,
  and they are taken to be of the declared type \<open>MessageInput\<close>. A number is an integer
  here; a fractional one behaves as any non-zero one. An object that is not an array
  carries the value of \<open>messages.length || 0\<close>, the only thing the code reads of it.
\<close>

datatype messages_value =
    V_undefined
  | V_null
  | V_boolean bool
  | V_number int
  | V_string string
  | V_object attr
  | V_array "MessageInput list"

text \<open>A thrown value: an \<open>Error\<close> with its message and stack, or anything else.\<close>

datatype thrown = Error_object string "string option" | Not_an_error

text \<open>
  Line 29, \<open>const { messages } = await request.json()\<close>: either it throws (the body is
  not JSON, or it is \<open>null\<close> and cannot be destructured) or it binds \<open>messages\<close>.
\<close>

datatype request_json = Throws thrown | Yields messages_value

fun falsy :: "messages_value \<Rightarrow> bool" where
  "falsy V_undefined = True"
| "falsy V_null = True"
| "falsy (V_boolean b) = (\<not> b)"
| "falsy (V_number n) = (n = 0)"
| "falsy (V_string s) = (s = [])"
| "falsy (V_object l) = False"
| "falsy (V_array ms) = False"

fun isArray :: "messages_value \<Rightarrow> bool" where
  "isArray (V_array ms) = True"
| "isArray v = False"

fun elements :: "messages_value \<Rightarrow> MessageInput list" where
  "elements (V_array ms) = ms"
| "elements v = []"

text \<open>\<open>messages?.length || 0\<close>\<close>

fun length_or_0 :: "messages_value \<Rightarrow> attr" where
  "length_or_0 (V_array ms) = A_number (int (length ms))"
| "length_or_0 (V_string s) = A_number (int (length s))"
| "length_or_0 (V_object l) = l"
| "length_or_0 v = A_number 0"

subsection \<open>The agent runtime\<close>

text \<open>
  The messages of the agent SDK, as far as the endpoint tells them apart: every test of
  a \<open>type\<close> field is a constructor, and everything the tests reject is an \<open>Other\<close>
  constructor. The subtype of a result stays a string, as the code compares it.
\<close>

datatype delta = Text_delta string | Other_delta

datatype raw_event = Content_block_delta "delta option" | Other_event

datatype content_block = Tool_use string | Other_block

datatype sdk_message =
    Stream_event raw_event
  | Assistant_message "content_block list option"
  | Tool_progress string string
  | Result string
  | Other_message

text \<open>
  One run of \<open>query\<close>: the messages the asynchronous iteration yields, and then either
  its end or the value it throws.
\<close>

datatype agent_run = Run "sdk_message list" "thrown option"

record query_options =
  maxTurns :: nat
  tools_preset :: string
  permissionMode :: string
  allowDangerouslySkipPermissions :: bool
  includePartialMessages :: bool
  cwd :: string

record query_params =
  prompt :: string
  options :: query_options

text \<open>What the endpoint takes from its surroundings: the agent runtime, the clock (the
  reading of the n-th call of \<open>performance.now()\<close>, in milliseconds) and the working
  directory of the process.\<close>

record env =
  agent_query :: "query_params \<Rightarrow> agent_run"
  performance_now :: "nat \<Rightarrow> int"
  process_cwd :: string

subsection \<open>The wire and the telemetry sink\<close>

datatype wire_event =
    Text_delta_event string
  | Tool_start string
  | Tool_progress_event string string
  | Done
  | Error_event string

datatype frame = Event wire_event | Sentinel

fun to_object :: "wire_event \<Rightarrow> (string \<times> json_value) list" where
  "to_object (Text_delta_event text) =
     [(''type'', JString ''text_delta''), (''text'', JString text)]"
| "to_object (Tool_start tool) =
     [(''type'', JString ''tool_start''), (''tool'', JString tool)]"
| "to_object (Tool_progress_event tool elapsed) =
     [(''type'', JString ''tool_progress''), (''tool'', JString tool),
      (''elapsed'', JNumber elapsed)]"
| "to_object Done = [(''type'', JString ''done'')]"
| "to_object (Error_event msg) =
     [(''type'', JString ''error''), (''message'', JString msg)]"

fun encode :: "frame \<Rightarrow> string" where
  "encode (Event e) = ''data: '' @ JSON_stringify (to_object e) @ ''\<newline>\<newline>''"
| "encode Sentinel = ''data: [DONE]\<newline>\<newline>''"

datatype level = Info | Warn | Error_level

datatype telemetry =
    Logger level string "(string \<times> attr) list"
  | Metrics_count string int "(string \<times> attr) list"
  | Metrics_distribution string int string "(string \<times> attr) list"

datatype response_body = Json_text string | Event_stream "string list"

record response =
  status :: nat
  headers :: "(string \<times> string) list"
  body :: response_body

record state =
  toolsUsedCount :: nat
  textChunksCount :: nat
  enqueued :: "frame list"
  closed :: bool
  sink :: "telemetry list"
  clock :: nat

definition initial :: state where
  "initial = \<lparr>toolsUsedCount = 0, textChunksCount = 0, enqueued = [], closed = False,
              sink = [], clock = 0\<rparr>"

definition logger :: "level \<Rightarrow> string \<Rightarrow> (string \<times> attr) list \<Rightarrow> state \<Rightarrow> state" where
  "logger l msg attrs s = s\<lparr>sink := sink s @ [Logger l msg attrs]\<rparr>"

definition metrics_count :: "string \<Rightarrow> int \<Rightarrow> (string \<times> attr) list \<Rightarrow> state \<Rightarrow> state" where
  "metrics_count n v attrs s = s\<lparr>sink := sink s @ [Metrics_count n v attrs]\<rparr>"

definition metrics_distribution ::
  "string \<Rightarrow> int \<Rightarrow> string \<Rightarrow> (string \<times> attr) list \<Rightarrow> state \<Rightarrow> state" where
  "metrics_distribution n v unit attrs s =
     s\<lparr>sink := sink s @ [Metrics_distribution n v unit attrs]\<rparr>"

definition enqueue :: "frame \<Rightarrow> state \<Rightarrow> state" where
  "enqueue f s = s\<lparr>enqueued := enqueued s @ [f]\<rparr>"

definition close :: "state \<Rightarrow> state" where
  "close s = s\<lparr>closed := True\<rparr>"

definition tick :: "state \<Rightarrow> state" where
  "tick s = s\<lparr>clock := clock s + 1\<rparr>"

subsection \<open>The prompt (lines 52 and 76 to 83)\<close>

definition SYSTEM_PROMPT :: string where
  "SYSTEM_PROMPT =
     ''You are a helpful personal assistant designed to help with general research, questions, and tasks.\<newline>'' @
     ''\<newline>'' @
     ''Your role is to:\<newline>'' @
     ''- Answer questions on any topic accurately and thoroughly\<newline>'' @
     ''- Help with research by searching the web for current information\<newline>'' @
     ''- Assist with writing, editing, and brainstorming\<newline>'' @
     ''- Provide explanations and summaries of complex topics\<newline>'' @
     ''- Help solve problems and think through decisions\<newline>'' @
     ''\<newline>'' @
     ''Guidelines:\<newline>'' @
     ''- Be friendly, clear, and conversational\<newline>'' @
     ''- Use web search when you need current information, facts you're unsure about, or real-time data\<newline>'' @
     ''- Keep responses concise but complete - expand when the topic warrants depth\<newline>'' @
     ''- Use markdown formatting when it helps readability (bullet points, code blocks, etc.)\<newline>'' @
     ''- Be honest when you don't know something and offer to search for answers''"

text \<open>\<open>Array.prototype.pop\<close>: the last element, \<open>undefined\<close> on the empty array.\<close>

fun pop :: "'a list \<Rightarrow> 'a option" where
  "pop [] = None"
| "pop (x # xs) = Some (last (x # xs))"

definition lastUserMessage :: "MessageInput list \<Rightarrow> MessageInput option" where
  "lastUserMessage messages = pop (filter (\<lambda>m. role m = ''user'') messages)"

definition render :: "MessageInput \<Rightarrow> string" where
  "render m = (if role m = ''user'' then ''User'' else ''Assistant'') @ '': '' @ content m"

text \<open>\<open>messages.slice(0, -1)\<close> is \<open>butlast\<close>, also on the empty array.\<close>

definition conversationContext :: "MessageInput list \<Rightarrow> string" where
  "conversationContext messages = join ''\<newline>\<newline>'' (map render (butlast messages))"

definition fullPrompt :: "MessageInput list \<Rightarrow> MessageInput \<Rightarrow> string" where
  "fullPrompt messages lastUser =
     (if conversationContext messages \<noteq> []
      then SYSTEM_PROMPT @ ''\<newline>\<newline>Previous conversation:\<newline>'' @
           conversationContext messages @ ''\<newline>\<newline>User: '' @ content lastUser
      else SYSTEM_PROMPT @ ''\<newline>\<newline>User: '' @ content lastUser)"

subsection \<open>The stream translator (lines 93 to 212)\<close>

text \<open>The five tests of the loop body, each a state transformer, in their order.\<close>

fun on_stream_event :: "sdk_message \<Rightarrow> state \<Rightarrow> state" where
  "on_stream_event (Stream_event (Content_block_delta (Some (Text_delta text)))) s =
     enqueue (Event (Text_delta_event text)) (s\<lparr>textChunksCount := textChunksCount s + 1\<rparr>)"
| "on_stream_event message s = s"

fun on_block :: "content_block \<Rightarrow> state \<Rightarrow> state" where
  "on_block (Tool_use name) s =
     enqueue (Event (Tool_start name))
       (metrics_count ''chat.tool.invocation'' 1 [(''tool_name'', A_string name)]
         (logger Info ''Tool invoked'' [(''tool'', A_string name)]
           (s\<lparr>toolsUsedCount := toolsUsedCount s + 1\<rparr>)))"
| "on_block Other_block s = s"

fun on_assistant :: "sdk_message \<Rightarrow> state \<Rightarrow> state" where
  "on_assistant (Assistant_message (Some blocks)) s = fold on_block blocks s"
| "on_assistant message s = s"

fun on_tool_progress :: "sdk_message \<Rightarrow> state \<Rightarrow> state" where
  "on_tool_progress (Tool_progress tool_name elapsed_time_seconds) s =
     enqueue (Event (Tool_progress_event tool_name elapsed_time_seconds)) s"
| "on_tool_progress message s = s"

definition completed :: "env \<Rightarrow> int \<Rightarrow> int \<Rightarrow> state \<Rightarrow> state" where
  "completed e requestStartTime streamStartTime s =
     (let totalDuration = performance_now e (clock s) - requestStartTime;
          streamDuration = performance_now e (clock s + 1) - streamStartTime
      in enqueue (Event Done)
          (metrics_distribution ''chat.tools.count'' (int (toolsUsedCount s)) ''none'' []
            (metrics_distribution ''chat.stream.chunks'' (int (textChunksCount s)) ''none'' []
              (metrics_distribution ''chat.api.duration'' totalDuration ''millisecond''
                  [(''status'', A_string ''success'')]
                (metrics_count ''chat.api.success'' 1 []
                  (logger Info ''Chat request completed successfully''
                      [(''totalDuration'', A_number totalDuration),
                       (''streamDuration'', A_number streamDuration),
                       (''toolsUsed'', A_number (int (toolsUsedCount s))),
                       (''textChunks'', A_number (int (textChunksCount s)))]
                    (tick (tick s))))))))"

fun on_success :: "env \<Rightarrow> int \<Rightarrow> int \<Rightarrow> sdk_message \<Rightarrow> state \<Rightarrow> state" where
  "on_success e requestStartTime streamStartTime (Result subtype) s =
     (if subtype = ''success'' then completed e requestStartTime streamStartTime s else s)"
| "on_success e requestStartTime streamStartTime message s = s"

fun on_failure :: "sdk_message \<Rightarrow> state \<Rightarrow> state" where
  "on_failure (Result subtype) s =
     (if subtype \<noteq> ''success''
      then enqueue (Event (Error_event ''Query did not complete successfully''))
             (metrics_count ''chat.api.failure'' 1 [(''subtype'', A_string subtype)]
               (logger Error_level ''Chat query did not complete successfully''
                  [(''subtype'', A_string subtype)] s))
      else s)"
| "on_failure message s = s"

definition handle_message :: "env \<Rightarrow> int \<Rightarrow> int \<Rightarrow> sdk_message \<Rightarrow> state \<Rightarrow> state" where
  "handle_message e requestStartTime streamStartTime message s =
     on_failure message
       (on_success e requestStartTime streamStartTime message
         (on_tool_progress message
           (on_assistant message
             (on_stream_event message s))))"

fun error_message :: "thrown \<Rightarrow> string" where
  "error_message (Error_object msg stack) = msg"
| "error_message Not_an_error = ''Unknown error''"

fun error_stack :: "thrown \<Rightarrow> attr" where
  "error_stack (Error_object msg (Some stack)) = A_string stack"
| "error_stack error = A_undefined"

text \<open>The \<open>catch\<close> of the stream (lines 196 to 210).\<close>

definition stream_catch :: "thrown \<Rightarrow> state \<Rightarrow> state" where
  "stream_catch error s =
     close
       (enqueue (Event (Error_event ''Stream error occurred''))
         (metrics_count ''chat.stream.error'' 1 [(''error_type'', A_string ''stream_processing'')]
           (logger Error_level ''Stream processing error''
              [(''error'', A_string (error_message error)),
               (''toolsUsed'', A_number (int (toolsUsedCount s))),
               (''textChunks'', A_number (int (textChunksCount s)))] s)))"

text \<open>
  The loop over the run and what follows it: the sentinel and the close when the
  iteration ends, the \<open>catch\<close> when it throws. The messages yielded before the throw
  have been handled, and what they enqueued stays enqueued.
\<close>

fun consume :: "env \<Rightarrow> int \<Rightarrow> int \<Rightarrow> agent_run \<Rightarrow> state \<Rightarrow> state" where
  "consume e requestStartTime streamStartTime (Run messages None) s =
     close (enqueue Sentinel (fold (handle_message e requestStartTime streamStartTime) messages s))"
| "consume e requestStartTime streamStartTime (Run messages (Some error)) s =
     stream_catch error (fold (handle_message e requestStartTime streamStartTime) messages s)"

text \<open>The argument of \<open>query\<close> (lines 97 to 111).\<close>

definition query_args :: "env \<Rightarrow> string \<Rightarrow> query_params" where
  "query_args e full =
     \<lparr>prompt = full,
      options = \<lparr>maxTurns = 10, tools_preset = ''claude_code'',
                 permissionMode = ''bypassPermissions'',
                 allowDangerouslySkipPermissions = True,
                 includePartialMessages = True,
                 cwd = process_cwd e\<rparr>\<rparr>"

definition start :: "env \<Rightarrow> int \<Rightarrow> int \<Rightarrow> string \<Rightarrow> state \<Rightarrow> state" where
  "start e requestStartTime streamStartTime full s =
     consume e requestStartTime streamStartTime (agent_query e (query_args e full)) s"

subsection \<open>The handler (lines 25 to 242)\<close>

definition json_headers :: "(string \<times> string) list" where
  "json_headers = [(''Content-Type'', ''application/json'')]"

definition stream_headers :: "(string \<times> string) list" where
  "stream_headers = [(''Content-Type'', ''text/event-stream''),
                     (''Cache-Control'', ''no-cache''),
                     (''Connection'', ''keep-alive'')]"

definition error_response :: "nat \<Rightarrow> string \<Rightarrow> response" where
  "error_response code msg =
     \<lparr>status = code, headers = json_headers,
      body = Json_text (JSON_stringify [(''error'', JString msg)])\<rparr>"

text \<open>The outer \<open>catch\<close> (lines 221 to 241).\<close>

definition api_catch :: "env \<Rightarrow> int \<Rightarrow> thrown \<Rightarrow> state \<Rightarrow> response \<times> state" where
  "api_catch e requestStartTime error s =
     (let s1 = logger Error_level ''Chat API error''
                 [(''error'', A_string (error_message error)), (''stack'', error_stack error)] s;
          s2 = metrics_count ''chat.api.error'' 1 [(''error_type'', A_string ''api_error'')] s1;
          totalDuration = performance_now e (clock s2) - requestStartTime;
          s3 = metrics_distribution ''chat.api.duration'' totalDuration ''millisecond''
                 [(''status'', A_string ''error'')] (tick s2)
      in (error_response 500 ''Failed to process chat request. Check server logs for details.'', s3))"

text \<open>Lines 64 to 220: a user message was found.\<close>

definition respond ::
  "env \<Rightarrow> int \<Rightarrow> MessageInput list \<Rightarrow> MessageInput \<Rightarrow> state \<Rightarrow> response \<times> state" where
  "respond e requestStartTime messages lastUser s =
     (let s1 = metrics_distribution ''chat.message.length'' (int (length (content lastUser)))
                 ''none'' [(''type'', A_string ''user_message'')] s;
          s2 = logger Info ''Processing chat request''
                 [(''conversationLength'', A_number (int (length messages))),
                  (''lastMessageLength'', A_number (int (length (content lastUser))))] s1;
          streamStartTime = performance_now e (clock s2);
          s3 = logger Info ''Starting Claude Agent SDK query'' [] (tick s2);
          s4 = start e requestStartTime streamStartTime (fullPrompt messages lastUser) s3
      in (\<lparr>status = 200, headers = stream_headers,
           body = Event_stream (map encode (enqueued s4))\<rparr>, s4))"

text \<open>Lines 31 to 62: the request counter, the first log line and the two checks.\<close>

definition validate :: "env \<Rightarrow> int \<Rightarrow> messages_value \<Rightarrow> state \<Rightarrow> response \<times> state" where
  "validate e requestStartTime messages s =
     (let s1 = metrics_count ''chat.api.request'' 1 [(''endpoint'', A_string ''/api/chat'')] s;
          s2 = logger Info ''Chat API request received''
                 [(''messageCount'', length_or_0 messages)] s1
      in if falsy messages \<or> \<not> isArray messages
         then (error_response 400 ''Messages array is required'',
               metrics_count ''chat.api.error'' 1 [(''error_type'', A_string ''invalid_messages'')]
                 (logger Warn ''Invalid request: messages array missing or invalid'' [] s2))
         else (case lastUserMessage (elements messages) of
                 None \<Rightarrow>
                   (error_response 400 ''No user message found'',
                    metrics_count ''chat.api.error'' 1
                        [(''error_type'', A_string ''no_user_message'')]
                      (logger Warn ''Invalid request: no user message found'' [] s2))
               | Some lastUser \<Rightarrow>
                   respond e requestStartTime (elements messages) lastUser s2))"

definition POST :: "env \<Rightarrow> request_json \<Rightarrow> response \<times> state" where
  "POST e request =
     (let requestStartTime = performance_now e 0;
          s = tick initial
      in case request of
           Throws error \<Rightarrow> api_catch e requestStartTime error s
         | Yields messages \<Rightarrow> validate e requestStartTime messages s)"

subsection \<open>Reading a run, a queue and the sink\<close>

text \<open>
  The words the statements below need. Of a message of the runtime: the names of its
  tool-invocation blocks, in their order, and the text of its streaming text delta. Of
  a frame and of a telemetry entry: its kind. Of a response: the chunks of its stream.
\<close>

fun block_names :: "content_block list \<Rightarrow> string list" where
  "block_names [] = []"
| "block_names (Tool_use name # blocks) = name # block_names blocks"
| "block_names (Other_block # blocks) = block_names blocks"

fun tools_of :: "sdk_message \<Rightarrow> string list" where
  "tools_of (Assistant_message (Some blocks)) = block_names blocks"
| "tools_of message = []"

fun texts_of :: "sdk_message \<Rightarrow> string list" where
  "texts_of (Stream_event (Content_block_delta (Some (Text_delta text)))) = [text]"
| "texts_of message = []"

fun is_tool_start :: "frame \<Rightarrow> bool" where
  "is_tool_start (Event (Tool_start tool)) = True"
| "is_tool_start f = False"

fun is_text_delta :: "frame \<Rightarrow> bool" where
  "is_text_delta (Event (Text_delta_event text)) = True"
| "is_text_delta f = False"

fun is_tool_invocation :: "telemetry \<Rightarrow> bool" where
  "is_tool_invocation (Metrics_count n v attrs) = (n = ''chat.tool.invocation'')"
| "is_tool_invocation t = False"

fun is_success :: "sdk_message \<Rightarrow> bool" where
  "is_success (Result subtype) = (subtype = ''success'')"
| "is_success message = False"

fun is_failure :: "sdk_message \<Rightarrow> bool" where
  "is_failure (Result subtype) = (subtype \<noteq> ''success'')"
| "is_failure message = False"

definition chunks :: "response \<Rightarrow> string list" where
  "chunks r = (case body r of Event_stream cs \<Rightarrow> cs | Json_text t \<Rightarrow> [])"

text \<open>
  The table of section 4.4 of the specification, in its words: what each kind of input
  event puts on the wire. It is not part of the handler; \<open>handle_enqueued\<close> below
  proves that the loop body appends exactly this to the queue, in any state.
\<close>

fun outbound :: "sdk_message \<Rightarrow> frame list" where
  "outbound (Stream_event (Content_block_delta (Some (Text_delta text)))) =
     [Event (Text_delta_event text)]"
| "outbound (Assistant_message (Some blocks)) =
     map (\<lambda>name. Event (Tool_start name)) (block_names blocks)"
| "outbound (Tool_progress tool elapsed) = [Event (Tool_progress_event tool elapsed)]"
| "outbound (Result subtype) =
     (if subtype = ''success'' then [Event Done]
      else [Event (Error_event ''Query did not complete successfully'')])"
| "outbound message = []"

text \<open>How the stream is finished: by the sentinel, or by the error event of the \<open>catch\<close>.\<close>

fun ending :: "thrown option \<Rightarrow> frame" where
  "ending None = Sentinel"
| "ending (Some error) = Event (Error_event ''Stream error occurred'')"

fun wire :: "agent_run \<Rightarrow> frame list" where
  "wire (Run messages raised) = concat (map outbound messages) @ [ending raised]"

text \<open>The state in which the stream starts, for a request that has a user message: two
  readings of the clock taken, five entries in the sink, nothing enqueued.\<close>

definition before_stream :: "MessageInput list \<Rightarrow> MessageInput \<Rightarrow> state" where
  "before_stream messages lastUser =
     \<lparr>toolsUsedCount = 0, textChunksCount = 0, enqueued = [], closed = False,
      sink = [Metrics_count ''chat.api.request'' 1 [(''endpoint'', A_string ''/api/chat'')],
              Logger Info ''Chat API request received''
                [(''messageCount'', A_number (int (length messages)))],
              Metrics_distribution ''chat.message.length'' (int (length (content lastUser)))
                ''none'' [(''type'', A_string ''user_message'')],
              Logger Info ''Processing chat request''
                [(''conversationLength'', A_number (int (length messages))),
                 (''lastMessageLength'', A_number (int (length (content lastUser))))],
              Logger Info ''Starting Claude Agent SDK query'' []],
      clock = 2\<rparr>"

text \<open>Concrete surroundings and turns, for the instances below: a runtime that plays a
  given run whatever it is asked, and a clock that advances ten milliseconds a reading.\<close>

definition scripted :: "agent_run \<Rightarrow> env" where
  "scripted r =
     \<lparr>agent_query = (\<lambda>q. r), performance_now = (\<lambda>n. 10 * int n), process_cwd = ''/app''\<rparr>"

definition hi :: MessageInput where
  "hi = \<lparr>role = ''user'', content = ''hi''\<rparr>"

definition hello :: MessageInput where
  "hello = \<lparr>role = ''assistant'', content = ''hello''\<rparr>"

section \<open>Properties\<close>

subsection \<open>The state operations, field by field\<close>

lemma logger_simps [simp]:
  "enqueued (logger l m a s) = enqueued s"
  "toolsUsedCount (logger l m a s) = toolsUsedCount s"
  "textChunksCount (logger l m a s) = textChunksCount s"
  "closed (logger l m a s) = closed s"
  "clock (logger l m a s) = clock s"
  "sink (logger l m a s) = sink s @ [Logger l m a]"
  by (simp_all add: logger_def)

lemma metrics_count_simps [simp]:
  "enqueued (metrics_count n v a s) = enqueued s"
  "toolsUsedCount (metrics_count n v a s) = toolsUsedCount s"
  "textChunksCount (metrics_count n v a s) = textChunksCount s"
  "closed (metrics_count n v a s) = closed s"
  "clock (metrics_count n v a s) = clock s"
  "sink (metrics_count n v a s) = sink s @ [Metrics_count n v a]"
  by (simp_all add: metrics_count_def)

lemma metrics_distribution_simps [simp]:
  "enqueued (metrics_distribution n v u a s) = enqueued s"
  "toolsUsedCount (metrics_distribution n v u a s) = toolsUsedCount s"
  "textChunksCount (metrics_distribution n v u a s) = textChunksCount s"
  "closed (metrics_distribution n v u a s) = closed s"
  "clock (metrics_distribution n v u a s) = clock s"
  "sink (metrics_distribution n v u a s) = sink s @ [Metrics_distribution n v u a]"
  by (simp_all add: metrics_distribution_def)

lemma enqueue_simps [simp]:
  "enqueued (enqueue f s) = enqueued s @ [f]"
  "toolsUsedCount (enqueue f s) = toolsUsedCount s"
  "textChunksCount (enqueue f s) = textChunksCount s"
  "closed (enqueue f s) = closed s"
  "clock (enqueue f s) = clock s"
  "sink (enqueue f s) = sink s"
  by (simp_all add: enqueue_def)

lemma close_simps [simp]:
  "enqueued (close s) = enqueued s"
  "toolsUsedCount (close s) = toolsUsedCount s"
  "textChunksCount (close s) = textChunksCount s"
  "closed (close s) = True"
  "clock (close s) = clock s"
  "sink (close s) = sink s"
  by (simp_all add: close_def)

lemma tick_simps [simp]:
  "enqueued (tick s) = enqueued s"
  "toolsUsedCount (tick s) = toolsUsedCount s"
  "textChunksCount (tick s) = textChunksCount s"
  "closed (tick s) = closed s"
  "clock (tick s) = clock s + 1"
  "sink (tick s) = sink s"
  by (simp_all add: tick_def)

lemma fold_on_block_enqueued:
  "enqueued (fold on_block bs s) = enqueued s @ map (\<lambda>n. Event (Tool_start n)) (block_names bs)"
  by (induction bs arbitrary: s rule: block_names.induct) simp_all

lemma fold_on_block_tools:
  "toolsUsedCount (fold on_block bs s) = toolsUsedCount s + length (block_names bs)"
  by (induction bs arbitrary: s rule: block_names.induct) simp_all

lemma fold_on_block_texts:
  "textChunksCount (fold on_block bs s) = textChunksCount s"
  by (induction bs arbitrary: s rule: block_names.induct) simp_all

lemma fold_on_block_clock:
  "clock (fold on_block bs s) = clock s"
  by (induction bs arbitrary: s rule: block_names.induct) simp_all

lemma fold_on_block_sink:
  "filter is_tool_invocation (sink (fold on_block bs s)) =
     filter is_tool_invocation (sink s) @
     map (\<lambda>n. Metrics_count ''chat.tool.invocation'' 1 [(''tool_name'', A_string n)]) (block_names bs)"
  by (induction bs arbitrary: s rule: block_names.induct) simp_all

lemma handle_enqueued:
  "enqueued (handle_message e a b m s) = enqueued s @ outbound m"
  by (cases m rule: outbound.cases)
     (simp_all add: handle_message_def completed_def Let_def fold_on_block_enqueued)

lemma handle_tools:
  "toolsUsedCount (handle_message e a b m s) = toolsUsedCount s + length (tools_of m)"
  by (cases m rule: outbound.cases)
     (simp_all add: handle_message_def completed_def Let_def fold_on_block_tools)

lemma handle_texts:
  "textChunksCount (handle_message e a b m s) = textChunksCount s + length (texts_of m)"
  by (cases m rule: outbound.cases)
     (simp_all add: handle_message_def completed_def Let_def fold_on_block_texts)

lemma handle_sink_tools:
  "filter is_tool_invocation (sink (handle_message e a b m s)) =
     filter is_tool_invocation (sink s) @
     map (\<lambda>n. Metrics_count ''chat.tool.invocation'' 1 [(''tool_name'', A_string n)]) (tools_of m)"
  by (cases m rule: outbound.cases)
     (simp_all add: handle_message_def completed_def Let_def fold_on_block_sink)


lemma fold_enqueued:
  "enqueued (fold (handle_message e a b) ms s) = enqueued s @ concat (map outbound ms)"
  by (induction ms arbitrary: s) (simp_all add: handle_enqueued)

lemma fold_tools:
  "toolsUsedCount (fold (handle_message e a b) ms s) =
     toolsUsedCount s + length (concat (map tools_of ms))"
  by (induction ms arbitrary: s) (simp_all add: handle_tools)

lemma fold_texts:
  "textChunksCount (fold (handle_message e a b) ms s) =
     textChunksCount s + length (concat (map texts_of ms))"
  by (induction ms arbitrary: s) (simp_all add: handle_texts)

lemma fold_sink_tools:
  "filter is_tool_invocation (sink (fold (handle_message e a b) ms s)) =
     filter is_tool_invocation (sink s) @
     map (\<lambda>n. Metrics_count ''chat.tool.invocation'' 1 [(''tool_name'', A_string n)])
       (concat (map tools_of ms))"
  by (induction ms arbitrary: s) (simp_all add: handle_sink_tools)

lemma consume_enqueued:
  "enqueued (consume e a b r s) = enqueued s @ wire r"
  by (cases "(e, a, b, r, s)" rule: consume.cases) (simp_all add: fold_enqueued stream_catch_def)

lemma consume_tools:
  "toolsUsedCount (consume e a b (Run ms r) s) =
     toolsUsedCount s + length (concat (map tools_of ms))"
  by (cases r) (simp_all add: fold_tools stream_catch_def)

lemma consume_texts:
  "textChunksCount (consume e a b (Run ms r) s) =
     textChunksCount s + length (concat (map texts_of ms))"
  by (cases r) (simp_all add: fold_texts stream_catch_def)

lemma consume_sink_tools:
  "filter is_tool_invocation (sink (consume e a b (Run ms r) s)) =
     filter is_tool_invocation (sink s) @
     map (\<lambda>n. Metrics_count ''chat.tool.invocation'' 1 [(''tool_name'', A_string n)])
       (concat (map tools_of ms))"
  by (cases r) (simp_all add: fold_sink_tools stream_catch_def)

lemma before_stream_eq:
  "logger Info ''Starting Claude Agent SDK query'' []
     (tick (logger Info ''Processing chat request''
        [(''conversationLength'', A_number (int (length ms))),
         (''lastMessageLength'', A_number (int (length (content m))))]
        (metrics_distribution ''chat.message.length'' (int (length (content m)))
           ''none'' [(''type'', A_string ''user_message'')]
           (logger Info ''Chat API request received''
              [(''messageCount'', A_number (int (length ms)))]
              (metrics_count ''chat.api.request'' 1 [(''endpoint'', A_string ''/api/chat'')]
                 (tick initial)))))) = before_stream ms m"
  by (simp add: before_stream_def logger_def metrics_count_def metrics_distribution_def
      tick_def initial_def)

lemma POST_state:
  assumes "lastUserMessage ms = Some m"
  shows "snd (POST e (Yields (V_array ms))) =
           consume e (performance_now e 0) (performance_now e 1)
             (agent_query e (query_args e (fullPrompt ms m))) (before_stream ms m)"
proof -
  have "clock (logger Info ''Processing chat request''
        [(''conversationLength'', A_number (int (length ms))),
         (''lastMessageLength'', A_number (int (length (content m))))]
        (metrics_distribution ''chat.message.length'' (int (length (content m)))
           ''none'' [(''type'', A_string ''user_message'')]
           (logger Info ''Chat API request received''
              [(''messageCount'', A_number (int (length ms)))]
              (metrics_count ''chat.api.request'' 1 [(''endpoint'', A_string ''/api/chat'')]
                 (tick initial))))) = 1"
    by (simp add: initial_def)
  then show ?thesis
    using assms
    by (simp add: POST_def validate_def respond_def start_def Let_def before_stream_eq)
qed

lemma POST_response:
  "fst (POST e (Yields v)) =
     (if \<not> isArray v then error_response 400 ''Messages array is required''
      else case lastUserMessage (elements v) of
             None \<Rightarrow> error_response 400 ''No user message found''
           | Some m \<Rightarrow>
               \<lparr>status = 200, headers = stream_headers,
                body = Event_stream (map encode
                  (wire (agent_query e (query_args e (fullPrompt (elements v) m)))))\<rparr>)"
  by (cases v)
     (simp_all add: POST_def validate_def respond_def start_def Let_def consume_enqueued
        initial_def split: option.splits)

subsection \<open>The literal lines and bodies\<close>








declare encode.simps [simp del]

lemma error_response_required:
  "error_response 400 ''Messages array is required'' =
     \<lparr>status = 400, headers = [(''Content-Type'', ''application/json'')],
      body = Json_text ''{\"error\":\"Messages array is required\"}''\<rparr>"
  by (simp add: error_response_def json_headers_def JSON_stringify_def stringify_property_def
      quote_JSON_string_def quote_char_def)

lemma error_response_no_user:
  "error_response 400 ''No user message found'' =
     \<lparr>status = 400, headers = [(''Content-Type'', ''application/json'')],
      body = Json_text ''{\"error\":\"No user message found\"}''\<rparr>"
  by (simp add: error_response_def json_headers_def JSON_stringify_def stringify_property_def
      quote_JSON_string_def quote_char_def)


lemma lastUserMessage_hi: "lastUserMessage [hi] = Some hi"
  by (simp add: lastUserMessage_def hi_def)

lemma scripted_query: "agent_query (scripted r) q = r"
  by (simp add: scripted_def)

lemma POST_not_array:
  assumes "\<not> isArray v"
  shows "POST e (Yields v) =
     (error_response 400 ''Messages array is required'',
      \<lparr>toolsUsedCount = 0, textChunksCount = 0, enqueued = [], closed = False,
       sink = [Metrics_count ''chat.api.request'' 1 [(''endpoint'', A_string ''/api/chat'')],
               Logger Info ''Chat API request received'' [(''messageCount'', length_or_0 v)],
               Logger Warn ''Invalid request: messages array missing or invalid'' [],
               Metrics_count ''chat.api.error'' 1 [(''error_type'', A_string ''invalid_messages'')]],
       clock = 1\<rparr>)"
  using assms
  by (cases v)
     (simp_all add: POST_def validate_def Let_def logger_def metrics_count_def tick_def initial_def)

lemma POST_empty_array:
  "POST e (Yields (V_array [])) =
     (error_response 400 ''No user message found'',
      \<lparr>toolsUsedCount = 0, textChunksCount = 0, enqueued = [], closed = False,
       sink = [Metrics_count ''chat.api.request'' 1 [(''endpoint'', A_string ''/api/chat'')],
               Logger Info ''Chat API request received'' [(''messageCount'', A_number 0)],
               Logger Warn ''Invalid request: no user message found'' [],
               Metrics_count ''chat.api.error'' 1 [(''error_type'', A_string ''no_user_message'')]],
       clock = 1\<rparr>)"
  by (simp add: POST_def validate_def Let_def logger_def metrics_count_def tick_def initial_def
      lastUserMessage_def)

subsection \<open>Validation of the request\<close>

text \<open>
  C1, as the specification states it: a request whose \<open>messages\<close> is missing, not an
  array or an empty array is answered with status 400 and the body
  \<open>{"error":"Messages array is required"}\<close>. For the empty array this does not hold:
  an array passes the first check whatever its length, and the second check answers
  \<open>{"error":"No user message found"}\<close>.
\<close>

theorem empty_messages_counterexample:
  "fst (POST (scripted (Run [] None)) (Yields (V_array []))) =
     \<lparr>status = 400, headers = [(''Content-Type'', ''application/json'')],
      body = Json_text ''{\"error\":\"No user message found\"}''\<rparr> \<and>
   body (fst (POST (scripted (Run [] None)) (Yields (V_array [])))) \<noteq>
     Json_text ''{\"error\":\"Messages array is required\"}''"
  by (simp add: POST_empty_array error_response_no_user)

text \<open>
  C1, amended: a request whose \<open>messages\<close> is missing or is not an array is answered
  with status 400 and the body \<open>{"error":"Messages array is required"}\<close>, and the error
  counter tagged \<open>invalid_messages\<close> is incremented; a request whose \<open>messages\<close> is the
  empty array is answered with status 400 and the body \<open>{"error":"No user message found"}\<close>,
  and the error counter tagged \<open>no_user_message\<close> is incremented. In both cases the
  response is a JSON body, nothing is enqueued on a stream and the agent runtime is not
  asked (the result does not mention it).
\<close>

theorem invalid_messages_rejected:
  "(\<not> isArray v \<longrightarrow>
      POST e (Yields v) =
        (\<lparr>status = 400, headers = [(''Content-Type'', ''application/json'')],
          body = Json_text ''{\"error\":\"Messages array is required\"}''\<rparr>,
         \<lparr>toolsUsedCount = 0, textChunksCount = 0, enqueued = [], closed = False,
          sink = [Metrics_count ''chat.api.request'' 1 [(''endpoint'', A_string ''/api/chat'')],
                  Logger Info ''Chat API request received'' [(''messageCount'', length_or_0 v)],
                  Logger Warn ''Invalid request: messages array missing or invalid'' [],
                  Metrics_count ''chat.api.error'' 1
                    [(''error_type'', A_string ''invalid_messages'')]],
          clock = 1\<rparr>)) \<and>
   POST e (Yields (V_array [])) =
     (\<lparr>status = 400, headers = [(''Content-Type'', ''application/json'')],
       body = Json_text ''{\"error\":\"No user message found\"}''\<rparr>,
      \<lparr>toolsUsedCount = 0, textChunksCount = 0, enqueued = [], closed = False,
       sink = [Metrics_count ''chat.api.request'' 1 [(''endpoint'', A_string ''/api/chat'')],
               Logger Info ''Chat API request received'' [(''messageCount'', A_number 0)],
               Logger Warn ''Invalid request: no user message found'' [],
               Metrics_count ''chat.api.error'' 1
                 [(''error_type'', A_string ''no_user_message'')]],
       clock = 1\<rparr>)"
  by (simp add: POST_not_array POST_empty_array error_response_required error_response_no_user)

text \<open>The amended C1 at a request without a \<open>messages\<close> field.\<close>

theorem invalid_messages_rejected_witness:
  "\<not> isArray V_undefined \<and>
   POST (scripted (Run [] None)) (Yields V_undefined) =
        (\<lparr>status = 400, headers = [(''Content-Type'', ''application/json'')],
          body = Json_text ''{\"error\":\"Messages array is required\"}''\<rparr>,
         \<lparr>toolsUsedCount = 0, textChunksCount = 0, enqueued = [], closed = False,
          sink = [Metrics_count ''chat.api.request'' 1 [(''endpoint'', A_string ''/api/chat'')],
                  Logger Info ''Chat API request received'' [(''messageCount'', A_number 0)],
                  Logger Warn ''Invalid request: messages array missing or invalid'' [],
                  Metrics_count ''chat.api.error'' 1
                    [(''error_type'', A_string ''invalid_messages'')]],
          clock = 1\<rparr>)"
  using invalid_messages_rejected [of V_undefined "scripted (Run [] None)"] by simp

subsection \<open>How the stream ends\<close>

lemma outbound_not_sentinel: "Sentinel \<notin> set (outbound m)"
  by (cases m rule: outbound.cases) auto


lemma POST_chunks:
  assumes "lastUserMessage ms = Some m"
    and "agent_query e (query_args e (fullPrompt ms m)) = Run events raised"
  shows "chunks (fst (POST e (Yields (V_array ms)))) =
           map encode (concat (map outbound events)) @ [encode (ending raised)]"
  using assms by (simp add: POST_response chunks_def)

lemma POST_enqueued:
  assumes "lastUserMessage ms = Some m"
    and "agent_query e (query_args e (fullPrompt ms m)) = Run events raised"
  shows "enqueued (snd (POST e (Yields (V_array ms)))) =
           concat (map outbound events) @ [ending raised]"
  using assms by (simp add: POST_state consume_enqueued before_stream_def)




subsection \<open>The prompt\<close>





text \<open>
  C3: the transcript of prior turns embedded in the prompt excludes the active prompt,
  the most recent message of the user. The code drops the last message of the list,
  whoever wrote it (line 77, with the comment that the last message is excluded since
  it is passed as the prompt), while the prompt is the last message of the user
  (line 52). On a list that ends with a turn of the assistant the two differ: the
  transcript holds the active prompt, the prompt repeats it, and the turn of the
  assistant is in neither.
\<close>

theorem active_prompt_repeated:
  "lastUserMessage [hi, hello] = Some hi \<and>
   conversationContext [hi, hello] = ''User: hi'' \<and>
   fullPrompt [hi, hello] hi =
     SYSTEM_PROMPT @ ''\<newline>\<newline>Previous conversation:\<newline>User: hi\<newline>\<newline>User: hi''"
  by (simp add: lastUserMessage_def conversationContext_def fullPrompt_def render_def
      hi_def hello_def)



subsection \<open>Tool invocations and text deltas\<close>

lemma filter_tool_start_outbound:
  "filter is_tool_start (outbound m) = map (\<lambda>n. Event (Tool_start n)) (tools_of m)"
  by (cases m rule: outbound.cases) (simp_all add: filter_map comp_def)

lemma filter_tool_start_concat:
  "filter is_tool_start (concat (map outbound ms)) =
     map (\<lambda>n. Event (Tool_start n)) (concat (map tools_of ms))"
  by (induction ms) (simp_all add: filter_tool_start_outbound)

lemma filter_text_delta_outbound:
  "filter is_text_delta (outbound m) = map (\<lambda>t. Event (Text_delta_event t)) (texts_of m)"
  by (cases m rule: outbound.cases) (simp_all add: filter_map comp_def)

lemma filter_text_delta_concat:
  "filter is_text_delta (concat (map outbound ms)) =
     map (\<lambda>t. Event (Text_delta_event t)) (concat (map texts_of ms))"
  by (induction ms) (simp_all add: filter_text_delta_outbound)

lemma ending_kind: "\<not> is_tool_start (ending r)" "\<not> is_text_delta (ending r)"
  by (cases r; simp)+

lemma POST_fst_chunks:
  assumes "lastUserMessage ms = Some m"
  shows "chunks (fst (POST e (Yields (V_array ms)))) =
           map encode (enqueued (snd (POST e (Yields (V_array ms)))))"
  using assms
  by (simp add: POST_response POST_state chunks_def consume_enqueued before_stream_def)

text \<open>
  C4: for every sequence of events of the runtime, each tool-invocation block of an
  assistant message gives exactly one \<open>tool_start\<close> event with the name of the block, in
  the order of the blocks; each block increments \<open>toolsUsedCount\<close> and emits one
  \<open>chat.tool.invocation\<close> counter tagged with the name. The \<open>tool_start\<close> frames of the
  queue are the names of the blocks, one for one and in order, and so are the counters
  in the sink; the chunks of the response are the frames of the queue, encoded.
\<close>

theorem tool_start_per_block:
  assumes "lastUserMessage ms = Some m"
    and "agent_query e (query_args e (fullPrompt ms m)) = Run events raised"
  shows "filter is_tool_start (enqueued (snd (POST e (Yields (V_array ms))))) =
           map (\<lambda>name. Event (Tool_start name)) (concat (map tools_of events)) \<and>
         toolsUsedCount (snd (POST e (Yields (V_array ms)))) =
           length (concat (map tools_of events)) \<and>
         filter is_tool_invocation (sink (snd (POST e (Yields (V_array ms))))) =
           map (\<lambda>name. Metrics_count ''chat.tool.invocation'' 1 [(''tool_name'', A_string name)])
             (concat (map tools_of events)) \<and>
         chunks (fst (POST e (Yields (V_array ms)))) =
           map encode (enqueued (snd (POST e (Yields (V_array ms)))))"
  using assms
  by (simp add: POST_fst_chunks POST_state consume_enqueued consume_tools consume_sink_tools
      filter_tool_start_concat ending_kind before_stream_def)

text \<open>C4 at a run with two assistant messages and three tool invocations.\<close>

theorem tool_start_per_block_witness:
  "filter is_tool_start
     (enqueued (snd (POST
        (scripted (Run [Assistant_message (Some [Tool_use ''WebSearch'', Other_block,
                                                  Tool_use ''Read'']),
                        Stream_event (Content_block_delta (Some (Text_delta ''Hello''))),
                        Assistant_message (Some [Tool_use ''WebSearch'']),
                        Result ''success''] None))
        (Yields (V_array [hi]))))) =
     [Event (Tool_start ''WebSearch''), Event (Tool_start ''Read''),
      Event (Tool_start ''WebSearch'')] \<and>
   toolsUsedCount (snd (POST
        (scripted (Run [Assistant_message (Some [Tool_use ''WebSearch'', Other_block,
                                                  Tool_use ''Read'']),
                        Stream_event (Content_block_delta (Some (Text_delta ''Hello''))),
                        Assistant_message (Some [Tool_use ''WebSearch'']),
                        Result ''success''] None))
        (Yields (V_array [hi])))) = 3"
  using tool_start_per_block [OF lastUserMessage_hi scripted_query,
      of "[Assistant_message (Some [Tool_use ''WebSearch'', Other_block, Tool_use ''Read'']),
           Stream_event (Content_block_delta (Some (Text_delta ''Hello''))),
           Assistant_message (Some [Tool_use ''WebSearch'']),
           Result ''success'']" None]
  by simp

lemma handle_success_sink:
  "sink (handle_message e a b (Result ''success'') s) =
     sink s @
     [Logger Info ''Chat request completed successfully''
        [(''totalDuration'', A_number (performance_now e (clock s) - a)),
         (''streamDuration'', A_number (performance_now e (clock s + 1) - b)),
         (''toolsUsed'', A_number (int (toolsUsedCount s))),
         (''textChunks'', A_number (int (textChunksCount s)))],
      Metrics_count ''chat.api.success'' 1 [],
      Metrics_distribution ''chat.api.duration'' (performance_now e (clock s) - a)
        ''millisecond'' [(''status'', A_string ''success'')],
      Metrics_distribution ''chat.stream.chunks'' (int (textChunksCount s)) ''none'' [],
      Metrics_distribution ''chat.tools.count'' (int (toolsUsedCount s)) ''none'' []]"
  by (simp add: handle_message_def completed_def Let_def)

text \<open>
  C5: for every sequence of events that ends in a result of subtype \<open>success\<close>, the
  \<open>textChunks\<close> of the completion log and the value of the \<open>chat.stream.chunks\<close>
  distribution are the number of streaming text deltas among the events, and each of
  them gives exactly one \<open>text_delta\<close> event with its text. The sink ends with the five
  entries of the completion; the \<open>text_delta\<close> frames of the queue are the texts of the
  deltas, one for one and in order.
\<close>

theorem text_chunks_counted:
  assumes "lastUserMessage ms = Some m"
    and "agent_query e (query_args e (fullPrompt ms m)) = Run (earlier @ [Result ''success'']) None"
  shows "(\<exists>entries total stream.
            sink (snd (POST e (Yields (V_array ms)))) =
              entries @
              [Logger Info ''Chat request completed successfully''
                 [(''totalDuration'', A_number total),
                  (''streamDuration'', A_number stream),
                  (''toolsUsed'', A_number
                     (int (length (concat (map tools_of (earlier @ [Result ''success''])))))),
                  (''textChunks'', A_number
                     (int (length (concat (map texts_of (earlier @ [Result ''success'']))))))],
               Metrics_count ''chat.api.success'' 1 [],
               Metrics_distribution ''chat.api.duration'' total ''millisecond''
                 [(''status'', A_string ''success'')],
               Metrics_distribution ''chat.stream.chunks''
                 (int (length (concat (map texts_of (earlier @ [Result ''success''])))))
                 ''none'' [],
               Metrics_distribution ''chat.tools.count''
                 (int (length (concat (map tools_of (earlier @ [Result ''success''])))))
                 ''none'' []]) \<and>
         filter is_text_delta (enqueued (snd (POST e (Yields (V_array ms))))) =
           map (\<lambda>text. Event (Text_delta_event text))
             (concat (map texts_of (earlier @ [Result ''success''])))"
proof -
  let ?h = "handle_message e (performance_now e 0) (performance_now e 1)"
  have "sink (snd (POST e (Yields (V_array ms)))) =
      sink (?h (Result ''success'') (fold ?h earlier (before_stream ms m)))"
    using assms by (simp add: POST_state)
  then have "\<exists>entries total stream. sink (snd (POST e (Yields (V_array ms)))) =
      entries @
      [Logger Info ''Chat request completed successfully''
         [(''totalDuration'', A_number total),
          (''streamDuration'', A_number stream),
          (''toolsUsed'', A_number (int (length (concat (map tools_of earlier))))),
          (''textChunks'', A_number (int (length (concat (map texts_of earlier)))))],
       Metrics_count ''chat.api.success'' 1 [],
       Metrics_distribution ''chat.api.duration'' total ''millisecond''
         [(''status'', A_string ''success'')],
       Metrics_distribution ''chat.stream.chunks''
         (int (length (concat (map texts_of earlier)))) ''none'' [],
       Metrics_distribution ''chat.tools.count''
         (int (length (concat (map tools_of earlier)))) ''none'' []]"
    by (simp add: handle_success_sink fold_tools fold_texts before_stream_def)
  moreover have "filter is_text_delta (enqueued (snd (POST e (Yields (V_array ms))))) =
           map (\<lambda>text. Event (Text_delta_event text))
             (concat (map texts_of (earlier @ [Result ''success''])))"
    using assms
    by (simp add: POST_state consume_enqueued filter_text_delta_concat before_stream_def
        del: consume.simps)
  ultimately show ?thesis by simp
qed

text \<open>C5 at scenario A with a second delta and a tool invocation between the two.\<close>

theorem text_chunks_counted_witness:
  "filter is_text_delta
     (enqueued (snd (POST
        (scripted (Run ([Stream_event (Content_block_delta (Some (Text_delta ''Hel''))),
                         Assistant_message (Some [Tool_use ''WebSearch'']),
                         Stream_event (Content_block_delta (Some (Text_delta ''lo'')))] @
                        [Result ''success'']) None))
        (Yields (V_array [hi]))))) =
     [Event (Text_delta_event ''Hel''), Event (Text_delta_event ''lo'')] \<and>
   (\<exists>entries total stream.
      sink (snd (POST
        (scripted (Run ([Stream_event (Content_block_delta (Some (Text_delta ''Hel''))),
                         Assistant_message (Some [Tool_use ''WebSearch'']),
                         Stream_event (Content_block_delta (Some (Text_delta ''lo'')))] @
                        [Result ''success'']) None))
        (Yields (V_array [hi])))) =
      entries @
      [Logger Info ''Chat request completed successfully''
         [(''totalDuration'', A_number total), (''streamDuration'', A_number stream),
          (''toolsUsed'', A_number 1), (''textChunks'', A_number 2)],
       Metrics_count ''chat.api.success'' 1 [],
       Metrics_distribution ''chat.api.duration'' total ''millisecond''
         [(''status'', A_string ''success'')],
       Metrics_distribution ''chat.stream.chunks'' 2 ''none'' [],
       Metrics_distribution ''chat.tools.count'' 1 ''none'' []])"
  using text_chunks_counted [OF lastUserMessage_hi scripted_query,
      of "[Stream_event (Content_block_delta (Some (Text_delta ''Hel''))),
           Assistant_message (Some [Tool_use ''WebSearch'']),
           Stream_event (Content_block_delta (Some (Text_delta ''lo'')))]"]
  by simp

subsection \<open>Order of the stream and terminal results\<close>

text \<open>
  C6: the outbound events are in the order of the input events that gave them, with no
  reordering and no batching: the stream is the concatenation, in order, of what each
  input event translates to, followed by the frame that ends it. Handling one message in
  any state appends its translation to the queue and leaves what is there; handling one
  more message after a sequence appends to what the sequence enqueued.
\<close>

theorem outbound_in_input_order:
  assumes "lastUserMessage ms = Some m"
    and "agent_query e (query_args e (fullPrompt ms m)) = Run events raised"
  shows "enqueued (snd (POST e (Yields (V_array ms)))) =
           concat (map outbound events) @ [ending raised] \<and>
         chunks (fst (POST e (Yields (V_array ms)))) =
           map encode (concat (map outbound events)) @ [encode (ending raised)] \<and>
         (\<forall>s a b x. enqueued (handle_message e a b x s) = enqueued s @ outbound x) \<and>
         (\<forall>s a b xs x. enqueued (fold (handle_message e a b) (xs @ [x]) s) =
            enqueued (fold (handle_message e a b) xs s) @ outbound x)"
  using POST_enqueued [OF assms] POST_chunks [OF assms]
  by (simp add: handle_enqueued)

text \<open>C6 at a run of a delta, two tool invocations, a progress notice, a delta and
  the result.\<close>

theorem outbound_in_input_order_witness:
  "enqueued (snd (POST
     (scripted (Run [Stream_event (Content_block_delta (Some (Text_delta ''a''))),
                     Assistant_message (Some [Tool_use ''WebSearch'', Tool_use ''Read'']),
                     Tool_progress ''WebSearch'' ''1.5'',
                     Other_message,
                     Stream_event (Content_block_delta (Some (Text_delta ''b''))),
                     Result ''success''] None))
     (Yields (V_array [hi])))) =
   [Event (Text_delta_event ''a''), Event (Tool_start ''WebSearch''), Event (Tool_start ''Read''),
    Event (Tool_progress_event ''WebSearch'' ''1.5''), Event (Text_delta_event ''b''),
    Event Done, Sentinel]"
  using outbound_in_input_order [OF lastUserMessage_hi scripted_query,
      of "[Stream_event (Content_block_delta (Some (Text_delta ''a''))),
           Assistant_message (Some [Tool_use ''WebSearch'', Tool_use ''Read'']),
           Tool_progress ''WebSearch'' ''1.5'',
           Other_message,
           Stream_event (Content_block_delta (Some (Text_delta ''b''))),
           Result ''success'']" None]
  by simp




lemma count_done_outbound:
  "length (filter (\<lambda>f. f = Event Done) (outbound x)) = (if is_success x then 1 else 0)"
  by (cases x rule: outbound.cases) (auto simp: filter_map comp_def)

lemma count_done_concat:
  "length (filter (\<lambda>f. f = Event Done) (concat (map outbound xs))) =
     length (filter is_success xs)"
  by (induction xs) (simp_all add: count_done_outbound)

lemma count_failed_outbound:
  "length (filter (\<lambda>f. f = Event (Error_event ''Query did not complete successfully''))
     (outbound x)) = (if is_failure x then 1 else 0)"
  by (cases x rule: outbound.cases) (auto simp: filter_map comp_def)

lemma count_failed_concat:
  "length (filter (\<lambda>f. f = Event (Error_event ''Query did not complete successfully''))
     (concat (map outbound xs))) = length (filter is_failure xs)"
  by (induction xs) (simp_all add: count_failed_outbound)

lemma count_sentinel_concat:
  "filter (\<lambda>f. f = Sentinel) (concat (map outbound xs)) = []"
  using outbound_not_sentinel by (induction xs) (auto simp: filter_empty_conv)

text \<open>
  C10: the translator does not stop at a result. When the iteration ends, the events
  after a result have been translated like those before it, the stream holds one \<open>done\<close>
  event for every result of subtype \<open>success\<close> and one error event for every other
  result, and one sentinel, which is its last frame.
\<close>

theorem results_do_not_stop_stream:
  assumes "lastUserMessage ms = Some m"
    and "agent_query e (query_args e (fullPrompt ms m)) =
           Run (earlier @ Result subtype # later) None"
  shows "enqueued (snd (POST e (Yields (V_array ms)))) =
           concat (map outbound earlier) @ outbound (Result subtype) @
           concat (map outbound later) @ [Sentinel] \<and>
         length (filter (\<lambda>f. f = Event Done) (enqueued (snd (POST e (Yields (V_array ms)))))) =
           length (filter is_success (earlier @ Result subtype # later)) \<and>
         length (filter (\<lambda>f. f = Event (Error_event ''Query did not complete successfully''))
                   (enqueued (snd (POST e (Yields (V_array ms)))))) =
           length (filter is_failure (earlier @ Result subtype # later)) \<and>
         length (filter (\<lambda>f. f = Sentinel) (enqueued (snd (POST e (Yields (V_array ms)))))) = 1"
proof -
  have q: "enqueued (snd (POST e (Yields (V_array ms)))) =
      concat (map outbound (earlier @ Result subtype # later)) @ [Sentinel]"
    using POST_enqueued [OF assms] by simp
  have "length (filter (\<lambda>f. f = Event Done) (enqueued (snd (POST e (Yields (V_array ms)))))) =
           length (filter is_success (earlier @ Result subtype # later))"
    unfolding q filter_append length_append count_done_concat by simp
  moreover have "length (filter (\<lambda>f. f = Event (Error_event ''Query did not complete successfully''))
                   (enqueued (snd (POST e (Yields (V_array ms)))))) =
           length (filter is_failure (earlier @ Result subtype # later))"
    unfolding q filter_append length_append count_failed_concat by simp
  moreover have "length (filter (\<lambda>f. f = Sentinel) (enqueued (snd (POST e (Yields (V_array ms)))))) = 1"
    unfolding q filter_append count_sentinel_concat by simp
  moreover have "enqueued (snd (POST e (Yields (V_array ms)))) =
           concat (map outbound earlier) @ outbound (Result subtype) @
           concat (map outbound later) @ [Sentinel]"
    unfolding q by simp
  ultimately show ?thesis by blast
qed

text \<open>C10 at a run with three results and a text delta after the first.\<close>

theorem results_do_not_stop_stream_witness:
  "enqueued (snd (POST
     (scripted (Run ([] @ Result ''success'' #
                     [Stream_event (Content_block_delta (Some (Text_delta ''more''))),
                      Result ''error_max_turns'', Result ''success'']) None))
     (Yields (V_array [hi])))) =
   [Event Done, Event (Text_delta_event ''more''),
    Event (Error_event ''Query did not complete successfully''), Event Done, Sentinel]"
  using results_do_not_stop_stream [OF lastUserMessage_hi scripted_query,
      of "[]" "''success''"
         "[Stream_event (Content_block_delta (Some (Text_delta ''more''))),
           Result ''error_max_turns'', Result ''success'']"]
  by simp

subsection \<open>Error payloads\<close>


lemma outbound_failure:
  "subtype \<noteq> ''success'' \<Longrightarrow>
     outbound (Result subtype) = [Event (Error_event ''Query did not complete successfully'')]"
  by simp




end
